theory Spec2Isabelle
  imports Complex_Main "HOL-Library.AList"
begin

section \<open>JavaScript values as the adapter sees them\<close>

text \<open>
  The adapter (\<^verbatim>\<open>src/service.ts\<close>, class \<^verbatim>\<open>PayPalProviderService\<close>) reads host and
  processor records as untyped data (\<^verbatim>\<open>any\<close>), with optional chaining and truthiness
  tests. Values are therefore modelled as a JSON-like datatype.

  Numbers are exact rationals plus the three special values. A JavaScript number is a
  double: the model agrees with it on integers of magnitude below \<open>10^15\<close>, on their
  hundredths and on the renderings of both with two fraction digits, which is what the
  properties below are about. The rounding of a double product or quotient and
  overflow are not modelled.
\<close>

datatype jsnum = NaN | PosInfinity | NegInfinity | Finite rat

datatype jsval =
    JUndefined
  | JNull
  | JBool bool
  | JNum jsnum
  | JStr string
  | JArr "jsval list"
  | JObj "(string \<times> jsval) list"

type_synonym jsobj = "(string \<times> jsval) list"

text \<open>An object is an association list; the first binding of a key is the one read.\<close>

fun truthy :: "jsval \<Rightarrow> bool" where
  "truthy JUndefined = False"
| "truthy JNull = False"
| "truthy (JBool b) = b"
| "truthy (JNum n) = (n \<noteq> NaN \<and> n \<noteq> Finite 0)"
| "truthy (JStr s) = (s \<noteq> [])"
| "truthy (JArr xs) = True"
| "truthy (JObj kvs) = True"

text \<open>\<^verbatim>\<open>a || b\<close>\<close>

definition js_or :: "jsval \<Rightarrow> jsval \<Rightarrow> jsval" where
  "js_or a b = (if truthy a then a else b)"

text \<open>
  \<^verbatim>\<open>v?.k\<close> for the data property names the adapter reads (none of them is a
  built-in of strings or arrays, so only objects carry them).
\<close>

fun opt :: "jsval \<Rightarrow> string \<Rightarrow> jsval" where
  "opt (JObj kvs) k = (case map_of kvs k of Some x \<Rightarrow> x | None \<Rightarrow> JUndefined)"
| "opt v k = JUndefined"

text \<open>\<^verbatim>\<open>v?.[0]\<close>: first element of an array, first character of a string, key
  \<^verbatim>\<open>"0"\<close> of an object.\<close>

fun opt0 :: "jsval \<Rightarrow> jsval" where
  "opt0 (JArr xs) = (case xs of [] \<Rightarrow> JUndefined | x # _ \<Rightarrow> x)"
| "opt0 (JStr s) = (case s of [] \<Rightarrow> JUndefined | c # _ \<Rightarrow> JStr [c])"
| "opt0 (JObj kvs) = (case map_of kvs ''0'' of Some x \<Rightarrow> x | None \<Rightarrow> JUndefined)"
| "opt0 v = JUndefined"

section \<open>Helpers of the adapter\<close>

text \<open>\<^verbatim>\<open>getCaptureId\<close> (service.ts, lines 92-109).\<close>

definition getCaptureId :: "jsval \<Rightarrow> jsval" where
  "getCaptureId result =
     (if truthy (opt result ''capture_id'') then opt result ''capture_id''
      else let camelPath =
                 opt (opt0 (opt (opt (opt0 (opt result ''purchaseUnits'')) ''payments'') ''captures'')) ''id''
           in if truthy camelPath then camelPath
      else let snakePath =
                 opt (opt0 (opt (opt (opt0 (opt result ''purchase_units'')) ''payments'') ''captures'')) ''id''
           in if truthy snakePath then snakePath
      else opt (opt0 (opt (opt result ''payments'') ''captures'')) ''id'')"

text \<open>\<^verbatim>\<open>getCurrencyCode\<close> (service.ts, lines 114-126).\<close>

definition getCurrencyCode :: "jsval \<Rightarrow> jsval" where
  "getCurrencyCode d =
     (if truthy (opt d ''currency_code'') then opt d ''currency_code''
      else let camelPath = opt (opt (opt0 (opt d ''purchaseUnits'')) ''amount'') ''currencyCode''
           in if truthy camelPath then camelPath
      else let snakePath = opt (opt (opt0 (opt d ''purchase_units'')) ''amount'') ''currency_code''
           in if truthy snakePath then snakePath
      else JStr ''USD'')"

text \<open>
  The first revision of the file (\<^verbatim>\<open>unnamed/part_000\<close>, \<^verbatim>\<open>refundPayment\<close>, lines
  245-247) looks the capture id up inline and has no camelCase path.
\<close>

definition captureId_p000 :: "jsval \<Rightarrow> jsval" where
  "captureId_p000 d =
     (let captureId = opt d ''capture_id'';
          captureId = (if \<not> truthy captureId
                       then opt (opt0 (opt (opt (opt0 (opt d ''purchase_units'')) ''payments'') ''captures'')) ''id''
                       else captureId);
          captureId = (if \<not> truthy captureId
                       then opt (opt0 (opt (opt d ''payments'') ''captures'')) ''id''
                       else captureId)
      in captureId)"

text \<open>\<^verbatim>\<open>PaymentSessionStatus\<close> of the host framework (the members the adapter uses).\<close>

datatype session_status = PENDING | REQUIRES_MORE | CAPTURED | CANCELED | ERROR

record status_result =
  sr_status :: session_status
  sr_data :: jsobj

text \<open>
  \<^verbatim>\<open>getStatus\<close> (service.ts, lines 438-475). Its callers pass the \<^verbatim>\<open>result\<close> of a
  processor response, an object; \<^verbatim>\<open>switch\<close> compares with \<^verbatim>\<open>===\<close>, so only a
  string value of \<^verbatim>\<open>status\<close> can match a case.
\<close>

definition getStatus :: "jsobj \<Rightarrow> status_result" where
  "getStatus paypalOrder =
     (let status = opt (JObj paypalOrder) ''status''; data = paypalOrder in
      if status = JStr ''CREATED'' \<or> status = JStr ''SAVED''
        then \<lparr>sr_status = PENDING, sr_data = data\<rparr>
      else if status = JStr ''APPROVED''
        then \<lparr>sr_status = PENDING, sr_data = data\<rparr>
      else if status = JStr ''PAYER_ACTION_REQUIRED''
        then \<lparr>sr_status = REQUIRES_MORE, sr_data = data\<rparr>
      else if status = JStr ''COMPLETED''
        then \<lparr>sr_status = CAPTURED, sr_data = data\<rparr>
      else if status = JStr ''VOIDED''
        then \<lparr>sr_status = CANCELED, sr_data = data\<rparr>
      else \<lparr>sr_status = PENDING, sr_data = data\<rparr>)"

section \<open>The ordered accessor list of the specification\<close>

text \<open>
  The specification describes the lookup as an ordered list of accessor attempts. A
  path is a list of steps; \<open>walk\<close> follows it with optional chaining, and
  \<open>first_present\<close> returns the first candidate that JavaScript treats as present
  (truthy), or the last resort when none is.
\<close>

datatype step = Key string | First

fun walk :: "jsval \<Rightarrow> step list \<Rightarrow> jsval" where
  "walk v [] = v"
| "walk v (Key k # p) = walk (opt v k) p"
| "walk v (First # p) = walk (opt0 v) p"

fun first_present :: "jsval list \<Rightarrow> jsval \<Rightarrow> jsval" where
  "first_present [] d = d"
| "first_present (v # vs) d = (if truthy v then v else first_present vs d)"

definition flat_path :: "step list" where
  "flat_path = [Key ''capture_id'']"

definition camel_path :: "step list" where
  "camel_path = [Key ''purchaseUnits'', First, Key ''payments'', Key ''captures'', First, Key ''id'']"

definition snake_path :: "step list" where
  "snake_path = [Key ''purchase_units'', First, Key ''payments'', Key ''captures'', First, Key ''id'']"

definition fallback_path :: "step list" where
  "fallback_path = [Key ''payments'', Key ''captures'', First, Key ''id'']"

text \<open>A purchase unit that carries one capture with the given identifier.\<close>

definition capture_unit :: "jsval \<Rightarrow> jsval" where
  "capture_unit captureId =
     JObj [(''payments'', JObj [(''captures'', JArr [JObj [(''id'', captureId)]])])]"

text \<open>
  The table of the specification: the six processor statuses and the host status each
  maps to; any value that is not in the table (another string, a value that is not a
  string, a missing status) is pending.
\<close>

definition status_table :: "(string \<times> session_status) list" where
  "status_table =
     [(''CREATED'', PENDING), (''SAVED'', PENDING), (''APPROVED'', PENDING),
      (''PAYER_ACTION_REQUIRED'', REQUIRES_MORE), (''COMPLETED'', CAPTURED),
      (''VOIDED'', CANCELED)]"

fun host_status :: "jsval \<Rightarrow> session_status" where
  "host_status (JStr s) = (case map_of status_table s of Some t \<Rightarrow> t | None \<Rightarrow> PENDING)"
| "host_status v = PENDING"

section \<open>Numbers and their decimal strings\<close>

definition is_digit :: "char \<Rightarrow> bool" where
  "is_digit c = (c \<in> set ''0123456789'')"

definition digit_val :: "char \<Rightarrow> nat" where
  "digit_val c = of_char c - 48"

definition digit_char :: "nat \<Rightarrow> char" where
  "digit_char d = ''0123456789'' ! (d mod 10)"

fun dec :: "nat \<Rightarrow> string" where
  "dec n = (if n < 10 then [digit_char n] else dec (n div 10) @ [digit_char (n mod 10)])"

declare dec.simps [simp del]

definition digits_val :: "string \<Rightarrow> nat" where
  "digits_val ds = foldl (\<lambda>a c. 10 * a + digit_val c) 0 ds"

text \<open>
  \<^verbatim>\<open>Number.prototype.toFixed(2)\<close>: the integer \<open>n\<close> nearest to \<open>100 * |x|\<close> (the larger
  one on a tie), written with at least three digits and a point before the last two.
  JavaScript switches to exponent notation from \<open>10^21\<close> on; that range is not
  modelled, and the theorems below bound the amounts.
\<close>

fun toFixed2 :: "jsnum \<Rightarrow> string" where
  "toFixed2 NaN = ''NaN''"
| "toFixed2 PosInfinity = ''Infinity''"
| "toFixed2 NegInfinity = ''-Infinity''"
| "toFixed2 (Finite x) =
     (let n = nat \<lfloor>\<bar>x\<bar> * 100 + 1 / 2\<rfloor>;
          m = dec n;
          m = (if length m < 3 then replicate (3 - length m) (CHR ''0'') @ m else m)
      in (if x < 0 then ''-'' else '''') @ take (length m - 2) m @ ''.'' @ drop (length m - 2) m)"

text \<open>
  \<^verbatim>\<open>parseFloat\<close> on a string: leading white space (the ASCII one; strings are byte
  strings here), an optional sign, then \<^verbatim>\<open>Infinity\<close> or the longest decimal literal
  (digits, fraction, exponent); \<^verbatim>\<open>NaN\<close> when there is no digit. The value is the exact
  decimal, where JavaScript takes the nearest double.
\<close>

definition is_ws :: "char \<Rightarrow> bool" where
  "is_ws c = (c \<in> set [CHR '' '', CHR 0x09, CHR 0x0A, CHR 0x0B, CHR 0x0C, CHR 0x0D])"

definition pow10 :: "int \<Rightarrow> rat" where
  "pow10 e = (if 0 \<le> e then 10 ^ nat e else 1 / 10 ^ nat (- e))"

definition exponent_part :: "string \<Rightarrow> int" where
  "exponent_part r =
     (case r of
        [] \<Rightarrow> 0
      | c # r1 \<Rightarrow>
          if c = CHR ''e'' \<or> c = CHR ''E'' then
            (case r1 of
               [] \<Rightarrow> 0
             | s # r2 \<Rightarrow>
                 if s = CHR ''-'' then - int (digits_val (takeWhile is_digit r2))
                 else if s = CHR ''+'' then int (digits_val (takeWhile is_digit r2))
                 else int (digits_val (takeWhile is_digit r1)))
          else 0)"

definition parseFloat :: "string \<Rightarrow> jsnum" where
  "parseFloat input =
     (let s = dropWhile is_ws input;
          neg = (s \<noteq> [] \<and> hd s = CHR ''-'');
          s = (if s \<noteq> [] \<and> (hd s = CHR ''-'' \<or> hd s = CHR ''+'') then tl s else s)
      in if take 8 s = ''Infinity'' then (if neg then NegInfinity else PosInfinity)
         else
           let ip = takeWhile is_digit s;
               r = dropWhile is_digit s;
               fp = (case r of [] \<Rightarrow> [] | c # r1 \<Rightarrow> if c = CHR ''.'' then takeWhile is_digit r1 else []);
               r = (case r of [] \<Rightarrow> [] | c # r1 \<Rightarrow> if c = CHR ''.'' then dropWhile is_digit r1 else r)
           in if ip = [] \<and> fp = [] then NaN
              else Finite ((if neg then - 1 else 1)
                           * (of_nat (digits_val ip) + of_nat (digits_val fp) / 10 ^ length fp)
                           * pow10 (exponent_part r)))"

text \<open>
  \<^verbatim>\<open>parseFloat\<close> on any value converts it to a string first. A number prints and parses
  back to itself; an array prints its elements joined by commas, so only its first
  element can be read; \<^verbatim>\<open>null\<close> and \<^verbatim>\<open>undefined\<close> print as the empty string inside an
  array; booleans and objects print as words.
\<close>

fun parseFloat_any :: "jsval \<Rightarrow> jsnum" where
  "parseFloat_any (JStr s) = parseFloat s"
| "parseFloat_any (JNum n) = n"
| "parseFloat_any (JArr []) = NaN"
| "parseFloat_any (JArr (x # xs)) =
     (case x of JUndefined \<Rightarrow> NaN | JNull \<Rightarrow> NaN | _ \<Rightarrow> parseFloat_any x)"
| "parseFloat_any v = NaN"

text \<open>\<^verbatim>\<open>x * 100\<close> and \<^verbatim>\<open>x / 100\<close> on numbers.\<close>

fun times100 :: "jsnum \<Rightarrow> jsnum" where
  "times100 (Finite x) = Finite (x * 100)"
| "times100 n = n"

fun div100 :: "jsnum \<Rightarrow> jsnum" where
  "div100 (Finite x) = Finite (x / 100)"
| "div100 n = n"

text \<open>\<^verbatim>\<open>String.prototype.toUpperCase\<close> on ASCII text (currency codes are ASCII).\<close>

definition upper_char :: "char \<Rightarrow> char" where
  "upper_char c =
     (let n = (of_char c :: nat) in if 97 \<le> n \<and> n \<le> 122 then char_of (n - 32) else c)"

definition toUpperCase :: "string \<Rightarrow> string" where
  "toUpperCase s = map upper_char s"

section \<open>Errors, the processor and the host framework\<close>

text \<open>
  What a \<^verbatim>\<open>catch\<close> clause of the adapter receives: an error object with its
  \<^verbatim>\<open>statusCode\<close> (undefined unless the SDK reports an HTTP status), its name and its
  message.
\<close>

datatype js_error = JsError (err_statusCode: jsval) (err_name: string) (err_message: string)

text \<open>The text of \<^verbatim>\<open>${error.message || error}\<close>: an error with an empty message prints
  as its name.\<close>

definition error_text :: "js_error \<Rightarrow> string" where
  "error_text error = (if err_message error \<noteq> [] then err_message error else err_name error)"

datatype medusa_error_type = INVALID_DATA | PAYMENT_AUTHORIZATION_ERROR

datatype medusa_error = MedusaError medusa_error_type string

text \<open>The requests the adapter sends to the processor, in the order it sends them.\<close>

datatype api_call =
    CreateOrder jsobj
  | CaptureOrder jsval
  | GetOrder jsval
  | RefundCapturedPayment jsval jsobj
  | CreateSetupToken jsobj jsval
  | ListCustomerPaymentTokens jsval nat

text \<open>
  The collaborators are parameters of every operation: the processor's SDK controllers
  (each answers a request with the \<^verbatim>\<open>result\<close> of its response, an object, or throws),
  and the host framework's \<^verbatim>\<open>new BigNumber(x).numeric\<close>, whose code is not part of this
  repository.
\<close>

record env =
  createOrder :: "jsobj \<Rightarrow> js_error + jsobj"
  captureOrder :: "jsval \<Rightarrow> js_error + jsobj"
  getOrder :: "jsval \<Rightarrow> js_error + jsobj"
  refundCapturedPayment :: "jsval \<Rightarrow> jsobj \<Rightarrow> js_error + jsobj"
  createSetupToken :: "jsobj \<Rightarrow> jsval \<Rightarrow> js_error + jsobj"
  listCustomerPaymentTokens :: "jsval \<Rightarrow> nat \<Rightarrow> js_error + jsobj list option"
  bigNumberNumeric :: "jsval \<Rightarrow> js_error + jsnum"

record payment_input =
  pi_currency_code :: string
  pi_amount :: jsval
  pi_data :: jsval
  pi_context :: jsval

record initiate_output =
  io_id :: jsval
  io_status :: session_status
  io_data :: jsobj

record payment_output =
  po_status :: session_status
  po_data :: jsval

section \<open>Payment operations\<close>

text \<open>
  Every operation returns its outcome (\<open>Inl\<close> for a thrown \<^verbatim>\<open>MedusaError\<close>) together
  with the list of requests it sent. Console output and the constant request option
  \<^verbatim>\<open>prefer: "return=representation"\<close> are left out.
\<close>

text \<open>\<^verbatim>\<open>initiatePayment\<close> (service.ts, lines 135-181).\<close>

definition initiatePayment ::
  "env \<Rightarrow> payment_input \<Rightarrow> (medusa_error + initiate_output) \<times> api_call list" where
  "initiatePayment e input =
     (let currency_code = pi_currency_code input; amount = pi_amount input; data = pi_data input in
      case bigNumberNumeric e amount of
        Inl error \<Rightarrow>
          (Inl (MedusaError PAYMENT_AUTHORIZATION_ERROR
                  (''PayPal initiatePayment failed: '' @ error_text error)), [])
      | Inr numeric \<Rightarrow>
          let body =
                [(''intent'', JStr ''CAPTURE''),
                 (''purchaseUnits'',
                    JArr [JObj [(''amount'',
                                   JObj [(''currencyCode'', JStr (toUpperCase currency_code)),
                                         (''value'', JStr (toFixed2 numeric))]),
                                (''customId'', js_or (opt data ''session_id'') JUndefined)]])];
              body =
                (if truthy (opt data ''resource_id'') \<and> truthy (opt data ''is_saved_token'')
                 then body @ [(''paymentSource'',
                                 JObj [(''token'', JObj [(''id'', opt data ''resource_id''),
                                                         (''type'', JStr ''BILLING_AGREEMENT'')])])]
                 else body @ [(''applicationContext'', JObj [(''userAction'', JStr ''PAY_NOW'')])])
          in (case createOrder e body of
                Inl error \<Rightarrow>
                  (Inl (MedusaError PAYMENT_AUTHORIZATION_ERROR
                          (''PayPal initiatePayment failed: '' @ error_text error)),
                   [CreateOrder body])
              | Inr order \<Rightarrow>
                  (Inr \<lparr>io_id = opt (JObj order) ''id'',
                        io_status = sr_status (getStatus order),
                        io_data = sr_data (getStatus order)\<rparr>,
                   [CreateOrder body])))"

text \<open>\<^verbatim>\<open>getPaymentStatus\<close> (service.ts, lines 259-302). It never throws.\<close>

definition getPaymentStatus :: "env \<Rightarrow> payment_input \<Rightarrow> payment_output \<times> api_call list" where
  "getPaymentStatus e input =
     (let data = pi_data input; orderId = opt data ''id'' in
      if \<not> truthy orderId
      then (\<lparr>po_status = PENDING, po_data = js_or data (JObj [])\<rparr>, [])
      else
        case getOrder e orderId of
          Inr result \<Rightarrow>
            let captureId = getCaptureId (JObj result);
                currencyCode = getCurrencyCode (JObj result);
                statusResult = getStatus result
            in (\<lparr>po_status = sr_status statusResult,
                 po_data = JObj (AList.update ''currency_code'' currencyCode
                                  (AList.update ''capture_id'' captureId (sr_data statusResult)))\<rparr>,
                [GetOrder orderId])
        | Inl error \<Rightarrow>
            (\<lparr>po_status = ERROR, po_data = js_or data (JObj [])\<rparr>, [GetOrder orderId]))"

text \<open>\<^verbatim>\<open>authorizePayment\<close> (service.ts, lines 186-231).\<close>

definition authorizePayment ::
  "env \<Rightarrow> payment_input \<Rightarrow> (medusa_error + payment_output) \<times> api_call list" where
  "authorizePayment e input =
     (let data = pi_data input; orderId = opt data ''id'' in
      if \<not> truthy orderId
      then (Inl (MedusaError INVALID_DATA ''No PayPal order ID found for authorizePayment''), [])
      else
        case captureOrder e orderId of
          Inr result \<Rightarrow>
            let captureId = getCaptureId (JObj result);
                currencyCode = getCurrencyCode (JObj result);
                statusResult = getStatus result
            in (Inr \<lparr>po_status = sr_status statusResult,
                     po_data = JObj (AList.update ''currency_code'' currencyCode
                                      (AList.update ''capture_id'' captureId (sr_data statusResult)))\<rparr>,
                [CaptureOrder orderId])
        | Inl error \<Rightarrow>
            if err_statusCode error = JNum (Finite 422)
            then (Inr (fst (getPaymentStatus e input)),
                  CaptureOrder orderId # snd (getPaymentStatus e input))
            else (Inl (MedusaError PAYMENT_AUTHORIZATION_ERROR
                         (''PayPal authorizePayment failed: '' @ error_text error)),
                  [CaptureOrder orderId]))"

text \<open>\<^verbatim>\<open>capturePayment\<close> and \<^verbatim>\<open>retrievePayment\<close> (service.ts, lines 236-238, 363-365).\<close>

definition capturePayment :: "env \<Rightarrow> payment_input \<Rightarrow> payment_output \<times> api_call list" where
  "capturePayment e input = getPaymentStatus e input"

definition retrievePayment :: "env \<Rightarrow> payment_input \<Rightarrow> payment_output \<times> api_call list" where
  "retrievePayment e input = getPaymentStatus e input"

text \<open>
  \<^verbatim>\<open>currencyCode.toUpperCase()\<close> in \<^verbatim>\<open>refundPayment\<close>: the currency code comes out of
  untyped data, and a value that is not a string has no such method.
\<close>

definition currency_toUpperCase :: "jsval \<Rightarrow> js_error + string" where
  "currency_toUpperCase v =
     (case v of
        JStr s \<Rightarrow> Inr (toUpperCase s)
      | _ \<Rightarrow> Inl (JsError JUndefined ''TypeError'' ''currencyCode.toUpperCase is not a function''))"

text \<open>The body of the \<^verbatim>\<open>try\<close> block of \<^verbatim>\<open>refundPayment\<close> up to the processor call
  (service.ts, lines 327-343).\<close>

definition refundRequest :: "env \<Rightarrow> payment_input \<Rightarrow> js_error + jsobj" where
  "refundRequest e input =
     (let data = pi_data input; amount = pi_amount input in
      if truthy amount then
        (let currencyCode = getCurrencyCode data in
         case bigNumberNumeric e amount of
           Inl error \<Rightarrow> Inl error
         | Inr numeric \<Rightarrow>
             let refundValue = toFixed2 numeric in
             (case currency_toUpperCase currencyCode of
                Inl error \<Rightarrow> Inl error
              | Inr upper \<Rightarrow>
                  Inr [(''amount'', JObj [(''currencyCode'', JStr upper),
                                          (''value'', JStr refundValue)])]))
      else Inr [])"

text \<open>\<^verbatim>\<open>refundPayment\<close> (service.ts, lines 307-358).\<close>

definition refundPayment ::
  "env \<Rightarrow> payment_input \<Rightarrow> (medusa_error + jsobj) \<times> api_call list" where
  "refundPayment e input =
     (let data = pi_data input; captureId = getCaptureId data in
      if \<not> truthy captureId
      then (Inl (MedusaError INVALID_DATA ''No capture ID found for refund''), [])
      else
        case refundRequest e input of
          Inl error \<Rightarrow>
            (Inl (MedusaError PAYMENT_AUTHORIZATION_ERROR
                    (''PayPal refundPayment failed: '' @ error_text error)), [])
        | Inr request \<Rightarrow>
            (case refundCapturedPayment e captureId request of
               Inl error \<Rightarrow>
                 (Inl (MedusaError PAYMENT_AUTHORIZATION_ERROR
                         (''PayPal refundPayment failed: '' @ error_text error)),
                  [RefundCapturedPayment captureId request])
             | Inr result \<Rightarrow> (Inr result, [RefundCapturedPayment captureId request])))"

section \<open>Saved payment methods\<close>

record method_input =
  mi_context :: jsval
  mi_data :: jsval

record method_output =
  mo_id :: jsval
  mo_data :: jsobj

text \<open>\<^verbatim>\<open>savePaymentMethod\<close> (service.ts, lines 548-579).\<close>

definition savePaymentMethod ::
  "env \<Rightarrow> method_input \<Rightarrow> (medusa_error + method_output) \<times> api_call list" where
  "savePaymentMethod e input =
     (let ctx = mi_context input; data = mi_data input;
          accountHolderId = opt (opt (opt ctx ''account_holder'') ''data'') ''id'' in
      if \<not> truthy accountHolderId
      then (Inl (MedusaError INVALID_DATA ''Missing account holder ID for saving payment method''), [])
      else
        let setupTokenRequest =
              [(''payment_source'', JObj [(''card'', js_or (opt data ''card'') (JObj []))]),
               (''customer'', JObj [(''id'', accountHolderId)])];
            paypalRequestId = opt ctx ''idempotency_key''
        in case createSetupToken e setupTokenRequest paypalRequestId of
             Inr result \<Rightarrow>
               (Inr \<lparr>mo_id = js_or (opt (JObj result) ''id'') (JStr ''''), mo_data = result\<rparr>,
                [CreateSetupToken setupTokenRequest paypalRequestId])
           | Inl error \<Rightarrow>
               (Inl (MedusaError PAYMENT_AUTHORIZATION_ERROR
                       (''PayPal savePaymentMethod failed: '' @ error_text error)),
                [CreateSetupToken setupTokenRequest paypalRequestId]))"

text \<open>
  \<^verbatim>\<open>listPaymentMethods\<close> (service.ts, lines 584-609). The processor's answer is its
  \<^verbatim>\<open>paymentTokens\<close> field: a list of token objects, or nothing.
\<close>

definition listPaymentMethods ::
  "env \<Rightarrow> method_input \<Rightarrow> (medusa_error + method_output list) \<times> api_call list" where
  "listPaymentMethods e input =
     (let ctx = mi_context input;
          accountHolderId = opt (opt (opt ctx ''account_holder'') ''data'') ''id'' in
      if \<not> truthy accountHolderId
      then (Inr [], [])
      else
        case listCustomerPaymentTokens e accountHolderId 100 of
          Inr paymentTokens \<Rightarrow>
            (Inr (map (\<lambda>token. \<lparr>mo_id = opt (JObj token) ''id'', mo_data = token\<rparr>)
                      (case paymentTokens of Some tokens \<Rightarrow> tokens | None \<Rightarrow> [])),
             [ListCustomerPaymentTokens accountHolderId 100])
        | Inl error \<Rightarrow>
            if err_statusCode error = JNum (Finite 404)
            then (Inr [], [ListCustomerPaymentTokens accountHolderId 100])
            else (Inl (MedusaError INVALID_DATA
                         (''PayPal listPaymentMethods failed: '' @ error_text error)),
                  [ListCustomerPaymentTokens accountHolderId 100]))"

section \<open>Webhooks\<close>

datatype payment_action = SUCCESSFUL | FAILED | AUTHORIZED | NOT_SUPPORTED

record webhook_result =
  wh_action :: payment_action
  wh_session_id :: jsval
  wh_amount :: jsnum

text \<open>\<^verbatim>\<open>getAmount\<close> (service.ts, line 386).\<close>

definition getAmount :: "jsval \<Rightarrow> jsnum" where
  "getAmount obj = parseFloat_any (js_or (opt (opt obj ''amount'') ''value'') (JStr ''0''))"

text \<open>\<^verbatim>\<open>getWebhookActionAndData\<close> (service.ts, lines 381-433); the payload is an object.\<close>

definition getWebhookActionAndData :: "jsobj \<Rightarrow> webhook_result" where
  "getWebhookActionAndData payload =
     (let resource = opt (JObj payload) ''resource'';
          event_type = opt (JObj payload) ''event_type'' in
      if event_type = JStr ''PAYMENT.CAPTURE.COMPLETED'' then
        \<lparr>wh_action = SUCCESSFUL,
         wh_session_id = js_or (opt resource ''custom_id'') (opt resource ''customId''),
         wh_amount = getAmount resource\<rparr>
      else if event_type = JStr ''PAYMENT.CAPTURE.DENIED''
              \<or> event_type = JStr ''PAYMENT.CAPTURE.DECLINED'' then
        \<lparr>wh_action = FAILED,
         wh_session_id = js_or (opt resource ''custom_id'') (opt resource ''customId''),
         wh_amount = getAmount resource\<rparr>
      else if event_type = JStr ''CHECKOUT.ORDER.APPROVED'' then
        (let units = js_or (opt resource ''purchaseUnits'')
                       (js_or (opt resource ''purchase_units'') (JArr []))
         in \<lparr>wh_action = AUTHORIZED,
              wh_session_id = js_or (opt (opt0 units) ''custom_id'') (opt (opt0 units) ''customId''),
              wh_amount = parseFloat_any
                            (js_or (opt (opt (opt0 units) ''amount'') ''value'') (JStr ''0''))\<rparr>)
      else if event_type = JStr ''PAYMENT.CAPTURE.REFUNDED'' then
        \<lparr>wh_action = SUCCESSFUL,
         wh_session_id = js_or (opt resource ''custom_id'') (opt resource ''customId''),
         wh_amount = getAmount resource\<rparr>
      else \<lparr>wh_action = NOT_SUPPORTED, wh_session_id = JStr '''', wh_amount = Finite 0\<rparr>)"

section \<open>The two earlier revisions kept in the repository\<close>

text \<open>
  \<^verbatim>\<open>unnamed/part_000\<close> and \<^verbatim>\<open>unnamed/part_001\<close> are earlier revisions of
  \<^verbatim>\<open>service.ts\<close> (the compiled \<^verbatim>\<open>dist/service.js\<close> was built from such a revision).
  They treat the host's amount as minor units: a numeric amount is sent as
  \<^verbatim>\<open>(amount / 100).toFixed(2)\<close> (part_000, lines 100 and 264; part_001, lines 118 and
  283), and the webhook reads \<^verbatim>\<open>parseFloat(...) * 100\<close>.
\<close>

definition amount_value_p000 :: "jsnum \<Rightarrow> string" where
  "amount_value_p000 amount = toFixed2 (div100 amount)"

text \<open>\<^verbatim>\<open>getAmount\<close> of part_001 (line 322).\<close>

definition getAmount_p001 :: "jsval \<Rightarrow> jsnum" where
  "getAmount_p001 obj =
     times100 (parseFloat_any (js_or (opt (opt obj ''amount'') ''value'') (JStr ''0'')))"

text \<open>\<^verbatim>\<open>getWebhookActionAndData\<close> of part_001 (lines 316-369).\<close>

definition getWebhookActionAndData_p001 :: "jsobj \<Rightarrow> webhook_result" where
  "getWebhookActionAndData_p001 payload =
     (let resource = opt (JObj payload) ''resource'';
          event_type = opt (JObj payload) ''event_type'' in
      if event_type = JStr ''PAYMENT.CAPTURE.COMPLETED'' then
        \<lparr>wh_action = SUCCESSFUL,
         wh_session_id = js_or (opt resource ''custom_id'') (opt resource ''customId''),
         wh_amount = getAmount_p001 resource\<rparr>
      else if event_type = JStr ''PAYMENT.CAPTURE.DENIED''
              \<or> event_type = JStr ''PAYMENT.CAPTURE.DECLINED'' then
        \<lparr>wh_action = FAILED,
         wh_session_id = js_or (opt resource ''custom_id'') (opt resource ''customId''),
         wh_amount = getAmount_p001 resource\<rparr>
      else if event_type = JStr ''CHECKOUT.ORDER.APPROVED'' then
        (let units = js_or (opt resource ''purchaseUnits'')
                       (js_or (opt resource ''purchase_units'') (JArr []))
         in \<lparr>wh_action = AUTHORIZED,
              wh_session_id = js_or (opt (opt0 units) ''custom_id'') (opt (opt0 units) ''customId''),
              wh_amount = times100 (parseFloat_any
                            (js_or (opt (opt (opt0 units) ''amount'') ''value'') (JStr ''0'')))\<rparr>)
      else if event_type = JStr ''PAYMENT.CAPTURE.REFUNDED'' then
        \<lparr>wh_action = SUCCESSFUL,
         wh_session_id = js_or (opt resource ''custom_id'') (opt resource ''customId''),
         wh_amount = getAmount_p001 resource\<rparr>
      else \<lparr>wh_action = NOT_SUPPORTED, wh_session_id = JStr '''', wh_amount = Finite 0\<rparr>)"

text \<open>
  \<^verbatim>\<open>getWebhookActionAndData\<close> of part_000 (lines 297-343). It reads the event from
  \<^verbatim>\<open>webhookData.data\<close>; destructuring raises a \<^verbatim>\<open>TypeError\<close> when that field is
  undefined or null, which is the value \<open>None\<close> here.
\<close>

definition getWebhookActionAndData_p000 :: "jsobj \<Rightarrow> webhook_result option" where
  "getWebhookActionAndData_p000 webhookData =
     (let payload = opt (JObj webhookData) ''data'' in
      if payload = JUndefined \<or> payload = JNull then None
      else
        let resource = opt payload ''resource''; event_type = opt payload ''event_type'' in
        Some
          (if event_type = JStr ''PAYMENT.CAPTURE.COMPLETED'' then
             \<lparr>wh_action = SUCCESSFUL,
              wh_session_id = opt resource ''custom_id'',
              wh_amount = times100 (parseFloat_any
                            (js_or (opt (opt resource ''amount'') ''value'') (JStr ''0'')))\<rparr>
           else if event_type = JStr ''PAYMENT.CAPTURE.DENIED''
                   \<or> event_type = JStr ''PAYMENT.CAPTURE.DECLINED'' then
             \<lparr>wh_action = FAILED,
              wh_session_id = opt resource ''custom_id'',
              wh_amount = times100 (parseFloat_any
                            (js_or (opt (opt resource ''amount'') ''value'') (JStr ''0'')))\<rparr>
           else if event_type = JStr ''CHECKOUT.ORDER.APPROVED'' then
             \<lparr>wh_action = AUTHORIZED,
              wh_session_id = opt (opt0 (opt resource ''purchase_units'')) ''custom_id'',
              wh_amount = times100 (parseFloat_any
                            (js_or (opt (opt (opt0 (opt resource ''purchase_units'')) ''amount'') ''value'')
                               (JStr ''0'')))\<rparr>
           else if event_type = JStr ''PAYMENT.CAPTURE.REFUNDED'' then
             \<lparr>wh_action = SUCCESSFUL,
              wh_session_id = opt resource ''custom_id'',
              wh_amount = times100 (parseFloat_any
                            (js_or (opt (opt resource ''amount'') ''value'') (JStr ''0'')))\<rparr>
           else \<lparr>wh_action = NOT_SUPPORTED, wh_session_id = JStr '''', wh_amount = Finite 0\<rparr>))"

section \<open>Decimal strings of the specification\<close>

text \<open>
  The two renderings of an integer amount \<open>A\<close> with exactly two fraction digits:
  \<open>decimal_of_units\<close> writes \<open>A\<close> itself (350 is \<^verbatim>\<open>350.00\<close>), and
  \<open>decimal_of_minor\<close> writes \<open>A / 100\<close> (350 is \<^verbatim>\<open>3.50\<close>).
\<close>

definition sign_prefix :: "int \<Rightarrow> string" where
  "sign_prefix A = (if A < 0 then ''-'' else '''')"

definition decimal_of_units :: "int \<Rightarrow> string" where
  "decimal_of_units A = sign_prefix A @ dec (nat \<bar>A\<bar>) @ ''.00''"

definition decimal_of_minor :: "int \<Rightarrow> string" where
  "decimal_of_minor A =
     sign_prefix A @ dec (nat \<bar>A\<bar> div 100) @ ''.''
       @ [digit_char (nat \<bar>A\<bar> mod 100 div 10), digit_char (nat \<bar>A\<bar> mod 10)]"

text \<open>The amount value carried by a request to the processor.\<close>

fun request_amount_value :: "api_call \<Rightarrow> jsval" where
  "request_amount_value (CreateOrder body) =
     walk (JObj body) [Key ''purchaseUnits'', First, Key ''amount'', Key ''value'']"
| "request_amount_value (RefundCapturedPayment captureId body) =
     walk (JObj body) [Key ''amount'', Key ''value'']"
| "request_amount_value other = JUndefined"

section \<open>Example collaborators\<close>

text \<open>
  A framework wrapper that hands a plain number back unchanged and rejects every other
  input, and a processor whose order lookup answers \<open>lookup\<close> and whose every other
  call answers \<open>other\<close>. They instantiate the theorems below at concrete inputs.
\<close>

definition plain_numeric :: "jsval \<Rightarrow> js_error + jsnum" where
  "plain_numeric v =
     (case v of
        JNum n \<Rightarrow> if n = NaN then Inl (JsError JUndefined ''Error'' ''Invalid BigNumber value'')
                  else Inr n
      | _ \<Rightarrow> Inl (JsError JUndefined ''Error'' ''Invalid BigNumber value''))"

definition example_env :: "js_error + jsobj \<Rightarrow> js_error + jsobj \<Rightarrow> env" where
  "example_env other lookup =
     \<lparr>createOrder = (\<lambda>body. other),
      captureOrder = (\<lambda>orderId. other),
      getOrder = (\<lambda>orderId. lookup),
      refundCapturedPayment = (\<lambda>captureId body. other),
      createSetupToken = (\<lambda>body requestId. other),
      listCustomerPaymentTokens =
        (\<lambda>customerId pageSize. case other of Inl error \<Rightarrow> Inl error | Inr result \<Rightarrow> Inr None),
      bigNumberNumeric = plain_numeric\<rparr>"

definition example_input :: "jsval \<Rightarrow> jsval \<Rightarrow> payment_input" where
  "example_input amount data =
     \<lparr>pi_currency_code = ''usd'', pi_amount = amount, pi_data = data, pi_context = JUndefined\<rparr>"

section \<open>Decimal digits, rendering and parsing\<close>

lemma digit_char_cases:
  "digit_char d \<in> set ''0123456789''"
  unfolding digit_char_def by (rule nth_mem) simp

lemma is_digit_digit_char [simp]: "is_digit (digit_char d)"
  using digit_char_cases by (simp add: is_digit_def)

lemma lt10_cases: "d < 10 \<Longrightarrow> d \<in> {0, 1, 2, 3, 4, 5, 6, 7, 8, 9 :: nat}"
  by auto

lemma digit_val_digit_char [simp]: "d < 10 \<Longrightarrow> digit_val (digit_char d) = d"
  using lt10_cases [of d] by (auto simp: digit_char_def digit_val_def)

lemma is_digit_not_special:
  "is_digit c \<Longrightarrow> c \<noteq> CHR ''.'' \<and> c \<noteq> CHR ''-'' \<and> c \<noteq> CHR ''+'' \<and> c \<noteq> CHR ''I'' \<and> \<not> is_ws c"
  by (auto simp: is_digit_def is_ws_def)

lemma dec_digits: "\<forall>c \<in> set (dec n). is_digit c"
  by (induction n rule: dec.induct) (subst dec.simps, auto)

lemma dec_nonempty [simp]: "dec n \<noteq> []"
  by (subst dec.simps) simp

lemma digits_val_snoc: "digits_val (ds @ [c]) = 10 * digits_val ds + digit_val c"
  by (simp add: digits_val_def)

lemma digits_val_dec: "digits_val (dec n) = n"
proof (induction n rule: dec.induct)
  case (1 n)
  show ?case
  proof (cases "n < 10")
    case True
    then show ?thesis by (subst dec.simps) (simp add: digits_val_def)
  next
    case False
    with 1 have "digits_val (dec (n div 10)) = n div 10" by simp
    with False show ?thesis by (subst dec.simps) (simp add: digits_val_snoc)
  qed
qed

lemma dec_times10: "0 < k \<Longrightarrow> dec (10 * k) = dec k @ ''0''"
  by (subst dec.simps) (simp add: digit_char_def)

lemma dec_times100: "0 < k \<Longrightarrow> dec (100 * k) = dec k @ ''00''"
  using dec_times10 [of "10 * k"] dec_times10 [of k] by simp


lemma takeWhile_digits:
  "\<forall>c \<in> set ds. is_digit c \<Longrightarrow> \<not> is_digit x \<Longrightarrow> takeWhile is_digit (ds @ x # r) = ds"
  by simp

lemma dropWhile_digits:
  "\<forall>c \<in> set ds. is_digit c \<Longrightarrow> \<not> is_digit x \<Longrightarrow> dropWhile is_digit (ds @ x # r) = x # r"
  by simp

lemma takeWhile_all_digits: "\<forall>c \<in> set ds. is_digit c \<Longrightarrow> takeWhile is_digit ds = ds"
  by simp

lemma not_digit_point: "\<not> is_digit (CHR ''.'')"
  by (simp add: is_digit_def)

lemma parseFloat_unsigned:
  assumes ds: "\<forall>c \<in> set ds. is_digit c" and ne: "ds \<noteq> []" and fs: "\<forall>c \<in> set fs. is_digit c"
  shows "parseFloat (ds @ ''.'' @ fs)
           = Finite (of_nat (digits_val ds) + of_nat (digits_val fs) / 10 ^ length fs)"
proof -
  define S where "S = ds @ ''.'' @ fs"
  obtain d ds' where dsC: "ds = d # ds'" using ne by (cases ds) auto
  have d: "is_digit d" using ds dsC by simp
  have sp: "d \<noteq> CHR ''-''" "d \<noteq> CHR ''+''" "d \<noteq> CHR ''I''" "\<not> is_ws d"
    using is_digit_not_special [OF d] by simp_all
  have ws: "dropWhile is_ws S = S"
    using sp by (simp add: dsC S_def)
  have inf: "take 8 S \<noteq> ''Infinity''"
    using sp by (simp add: dsC S_def)
  have tw: "takeWhile is_digit S = ds"
    using takeWhile_digits [OF ds not_digit_point, of fs] by (simp add: S_def)
  have dw: "dropWhile is_digit S = CHR ''.'' # fs"
    using dropWhile_digits [OF ds not_digit_point, of fs] by (simp add: S_def)
  have hdn: "hd S = d" "S \<noteq> []" by (simp_all add: dsC S_def)
  have tf: "takeWhile is_digit fs = fs" "dropWhile is_digit fs = []"
    using fs by (simp_all add: takeWhile_all_digits)
  have "parseFloat S
          = Finite (of_nat (digits_val ds) + of_nat (digits_val fs) / 10 ^ length fs)"
    unfolding parseFloat_def Let_def ws
    using sp inf ne
    by (simp add: hdn tw dw tf exponent_part_def pow10_def)
  then show ?thesis by (simp add: S_def)
qed

lemma not_ws_minus: "\<not> is_ws (CHR ''-'')"
  by (simp add: is_ws_def)

lemma parseFloat_negative:
  assumes ds: "\<forall>c \<in> set ds. is_digit c" and ne: "ds \<noteq> []" and fs: "\<forall>c \<in> set fs. is_digit c"
  shows "parseFloat (''-'' @ ds @ ''.'' @ fs)
           = Finite (- (of_nat (digits_val ds) + of_nat (digits_val fs) / 10 ^ length fs))"
proof -
  define S where "S = ds @ ''.'' @ fs"
  obtain d ds' where dsC: "ds = d # ds'" using ne by (cases ds) auto
  have d: "is_digit d" using ds dsC by simp
  have sp: "d \<noteq> CHR ''I''"
    using is_digit_not_special [OF d] by simp
  have inf: "take 8 S \<noteq> ''Infinity''"
    using sp by (simp add: dsC S_def)
  have tw: "takeWhile is_digit S = ds"
    using takeWhile_digits [OF ds not_digit_point, of fs] by (simp add: S_def)
  have dw: "dropWhile is_digit S = CHR ''.'' # fs"
    using dropWhile_digits [OF ds not_digit_point, of fs] by (simp add: S_def)
  have tf: "takeWhile is_digit fs = fs" "dropWhile is_digit fs = []"
    using fs by (simp_all add: takeWhile_all_digits)
  have "parseFloat (CHR ''-'' # S)
          = Finite (- (of_nat (digits_val ds) + of_nat (digits_val fs) / 10 ^ length fs))"
    unfolding parseFloat_def Let_def
    using inf ne
    by (simp add: not_ws_minus tw dw tf exponent_part_def pow10_def)
  then show ?thesis by (simp add: S_def)
qed

lemma floor_half: "\<lfloor>rat_of_int k + 1 / 2\<rfloor> = k"
  by (simp add: floor_unique)

lemma floor_half_units: "nat \<lfloor>\<bar>rat_of_int A\<bar> * 100 + 1 / 2\<rfloor> = 100 * nat \<bar>A\<bar>"
proof -
  have "\<bar>rat_of_int A\<bar> * 100 + 1 / 2 = rat_of_int (\<bar>A\<bar> * 100) + 1 / 2" by simp
  then have "\<lfloor>\<bar>rat_of_int A\<bar> * 100 + 1 / 2\<rfloor> = \<bar>A\<bar> * 100"
    by (simp only: floor_half)
  then show ?thesis by (simp only: nat_mult_distrib_neg nat_mult_distrib) simp
qed

lemma floor_half_minor: "nat \<lfloor>\<bar>rat_of_int A / 100\<bar> * 100 + 1 / 2\<rfloor> = nat \<bar>A\<bar>"
proof -
  have "\<bar>rat_of_int A / 100\<bar> * 100 + 1 / 2 = rat_of_int \<bar>A\<bar> + 1 / 2" by simp
  then have "\<lfloor>\<bar>rat_of_int A / 100\<bar> * 100 + 1 / 2\<rfloor> = \<bar>A\<bar>"
    by (simp only: floor_half)
  then show ?thesis by (simp only:)
qed

lemma point_split:
  "take (length (ds @ [a, b]) - 2) (ds @ [a, b]) @ ''.'' @ drop (length (ds @ [a, b]) - 2) (ds @ [a, b])
     = ds @ ''.'' @ [a, b]"
  by simp

lemma dec_two_digits: "n < 100 \<Longrightarrow> 10 \<le> n \<Longrightarrow> dec n = [digit_char (n div 10), digit_char (n mod 10)]"
  by (subst dec.simps, subst dec.simps) simp

lemma div10_div10: "(n::nat) div 10 div 10 = n div 100"
proof -
  have "n div (10 * 10) = n div 10 div 10" by (rule div_mult2_eq)
  then show ?thesis by simp
qed

lemma mod100_div10: "(n::nat) mod 100 div 10 = n div 10 mod 10"
proof -
  have "n mod (10 * 10) = 10 * (n div 10 mod 10) + n mod 10" by (rule mod_mult2_eq)
  then have "n mod 100 = n mod 10 + (n div 10 mod 10) * 10" by simp
  then show ?thesis by simp
qed

lemma dec_split100:
  assumes "100 \<le> n"
  shows "dec n = dec (n div 100) @ [digit_char (n mod 100 div 10), digit_char (n mod 10)]"
proof -
  have a: "dec n = dec (n div 10) @ [digit_char (n mod 10)]"
    using assms by (subst dec.simps) simp
  have b: "dec (n div 10) = dec (n div 10 div 10) @ [digit_char (n div 10 mod 10)]"
    using assms by (subst dec.simps) simp
  show ?thesis by (simp only: a b div10_div10 mod100_div10 append_assoc append_Cons append_Nil)
qed

lemma dec_zero: "dec 0 = ''0''"
  by (subst dec.simps) (simp add: digit_char_def)

lemma toFixed2_units: "toFixed2 (Finite (of_int A)) = decimal_of_units A"
proof (cases "A = 0")
  case True
  then show ?thesis
    by (simp add: decimal_of_units_def sign_prefix_def dec_zero)
next
  case False
  then have pos: "0 < nat \<bar>A\<bar>" by simp
  have m: "dec (100 * nat \<bar>A\<bar>) = dec (nat \<bar>A\<bar>) @ ''00''"
    using dec_times100 [OF pos] .
  have len: "\<not> length (dec (nat \<bar>A\<bar>) @ ''00'') < 3"
    using dec_nonempty [of "nat \<bar>A\<bar>"] by (cases "dec (nat \<bar>A\<bar>)") simp_all
  have sgn: "(rat_of_int A < 0) = (A < 0)" by simp
  show ?thesis
    unfolding toFixed2.simps floor_half_units Let_def m sgn
    using len point_split [of "dec (nat \<bar>A\<bar>)" "CHR ''0''" "CHR ''0''"]
    by (simp add: decimal_of_units_def sign_prefix_def)
qed

lemma dec_one_digit: "n < 10 \<Longrightarrow> dec n = [digit_char n]"
  by (subst dec.simps) simp

lemma digit_char_zero: "digit_char 0 = CHR ''0''"
  by (simp add: digit_char_def)

lemma fixed_body:
  "(let m = dec n;
        m = (if length m < 3 then replicate (3 - length m) (CHR ''0'') @ m else m)
    in take (length m - 2) m @ ''.'' @ drop (length m - 2) m)
   = dec (n div 100) @ ''.'' @ [digit_char (n mod 100 div 10), digit_char (n mod 10)]"
proof -
  consider "n < 10" | "10 \<le> n" "n < 100" | "100 \<le> n" by linarith
  then show ?thesis
  proof cases
    case 1
    then show ?thesis
      by (simp add: dec_one_digit dec_zero digit_char_zero Let_def numeral_3_eq_3)
  next
    case 2
    then show ?thesis
      by (simp add: dec_two_digits dec_zero Let_def)
  next
    case 3
    have len: "\<not> length (dec (n div 100) @ [digit_char (n mod 100 div 10), digit_char (n mod 10)]) < 3"
      using dec_nonempty [of "n div 100"] by (cases "dec (n div 100)") simp_all
    show ?thesis
      unfolding dec_split100 [OF 3] Let_def
      using len point_split [of "dec (n div 100)" "digit_char (n mod 100 div 10)" "digit_char (n mod 10)"]
      by simp
  qed
qed

lemma toFixed2_minor: "toFixed2 (Finite (of_int A / 100)) = decimal_of_minor A"
proof -
  have sgn: "(rat_of_int A / 100 < 0) = (A < 0)" by simp
  show ?thesis
    unfolding toFixed2.simps floor_half_minor sgn decimal_of_minor_def sign_prefix_def
    using fixed_body [of "nat \<bar>A\<bar>"]
    by (simp add: Let_def)
qed

lemma digits_val_two: "a < 10 \<Longrightarrow> b < 10 \<Longrightarrow> digits_val [digit_char a, digit_char b] = 10 * a + b"
  by (simp add: digits_val_def)

lemma digits_val_zeros: "digits_val ''00'' = 0"
  by (simp add: digits_val_def digit_val_def)

lemma zeros_digits: "\<forall>c \<in> set ''00''. is_digit c"
  by (simp add: is_digit_def)

lemma parseFloat_units: "parseFloat (decimal_of_units A) = Finite (of_int A)"
proof (cases "A < 0")
  case False
  then show ?thesis
    using parseFloat_unsigned [OF dec_digits dec_nonempty zeros_digits, of "nat \<bar>A\<bar>"]
    by (simp add: decimal_of_units_def sign_prefix_def digits_val_dec digits_val_zeros)
next
  case True
  then show ?thesis
    using parseFloat_negative [OF dec_digits dec_nonempty zeros_digits, of "nat \<bar>A\<bar>"]
    by (simp add: decimal_of_units_def sign_prefix_def digits_val_dec digits_val_zeros)
qed

lemma hundredths: "10 * ((n::nat) mod 100 div 10) + n mod 10 = n mod 100"
proof -
  have "n mod 100 mod 10 = n mod 10" by (simp add: mod_mod_cancel)
  then have "10 * (n mod 100 div 10) + n mod 10 = 10 * (n mod 100 div 10) + n mod 100 mod 10"
    by simp
  also have "\<dots> = n mod 100" by (rule mult_div_mod_eq)
  finally show ?thesis .
qed

lemma two_digits: "\<forall>c \<in> set [digit_char a, digit_char b]. is_digit c"
  by simp

lemma minor_value:
  "(rat_of_nat (n div 100) + rat_of_nat (10 * (n mod 100 div 10) + n mod 10) / 100) * 100 = rat_of_nat n"
proof -
  have "rat_of_nat (100 * (n div 100) + n mod 100) = rat_of_nat n"
    by (simp only: mult_div_mod_eq)
  then have "100 * rat_of_nat (n div 100) + rat_of_nat (n mod 100) = rat_of_nat n"
    by (simp only: of_nat_add of_nat_mult of_nat_numeral)
  then have "(rat_of_nat (n div 100) + rat_of_nat (n mod 100) / 100) * 100 = rat_of_nat n"
    by (simp add: algebra_simps)
  then show ?thesis by (simp only: hundredths)
qed

lemma minor_unsigned:
  "times100 (parseFloat (dec (n div 100) @ ''.'' @ [digit_char (n mod 100 div 10), digit_char (n mod 10)]))
     = Finite (rat_of_nat n)"
proof -
  have a: "n mod 100 div 10 < 10" by simp
  have b: "n mod 10 < 10" by simp
  have "parseFloat (dec (n div 100) @ ''.'' @ [digit_char (n mod 100 div 10), digit_char (n mod 10)])
          = Finite (rat_of_nat (n div 100) + rat_of_nat (10 * (n mod 100 div 10) + n mod 10) / 100)"
    using parseFloat_unsigned [OF dec_digits dec_nonempty two_digits,
            of "n div 100" "n mod 100 div 10" "n mod 10"]
    by (simp only: digits_val_dec digits_val_two [OF a b]) simp
  then show ?thesis by (simp only: times100.simps minor_value)
qed

lemma minor_negative:
  "times100 (parseFloat (''-'' @ dec (n div 100) @ ''.'' @ [digit_char (n mod 100 div 10), digit_char (n mod 10)]))
     = Finite (- rat_of_nat n)"
proof -
  have a: "n mod 100 div 10 < 10" by simp
  have b: "n mod 10 < 10" by simp
  have "parseFloat (''-'' @ dec (n div 100) @ ''.'' @ [digit_char (n mod 100 div 10), digit_char (n mod 10)])
          = Finite (- (rat_of_nat (n div 100) + rat_of_nat (10 * (n mod 100 div 10) + n mod 10) / 100))"
    using parseFloat_negative [OF dec_digits dec_nonempty two_digits,
            of "n div 100" "n mod 100 div 10" "n mod 10"]
    by (simp only: digits_val_dec digits_val_two [OF a b]) simp
  then show ?thesis by (simp only: times100.simps minor_value mult_minus_left)
qed

lemma parseFloat_minor: "times100 (parseFloat (decimal_of_minor A)) = Finite (of_int A)"
proof (cases "A < 0")
  case False
  then have "rat_of_int A = rat_of_nat (nat \<bar>A\<bar>)" by simp
  with False show ?thesis
    unfolding decimal_of_minor_def sign_prefix_def
    using minor_unsigned [of "nat \<bar>A\<bar>"] by (simp only: if_False append_Nil)
next
  case True
  then have "rat_of_int A = - rat_of_nat (nat \<bar>A\<bar>)" by simp
  with True show ?thesis
    unfolding decimal_of_minor_def sign_prefix_def
    using minor_negative [of "nat \<bar>A\<bar>"] by (simp only: if_True)
qed

section \<open>Amounts\<close>

text \<open>
  C1, as the code has it. For an integer amount \<open>A\<close> of magnitude below \<open>10^15\<close> that
  the framework's wrapper hands back as the same number, \<^verbatim>\<open>initiatePayment\<close> sends
  the amount itself written with exactly two fraction digits (350 is sent as
  \<^verbatim>\<open>350.00\<close>, with no division by 100), and so does \<^verbatim>\<open>refundPayment\<close> when a
  non-zero amount is supplied, a capture id is found and the currency code is a string;
  parsing that string back gives \<open>A\<close>. The two earlier revisions divide by 100: there
  \<open>A\<close> is written as \<open>A / 100\<close> with exactly two fraction digits (350 is \<^verbatim>\<open>3.50\<close>),
  and parsing back and multiplying by 100 gives \<open>A\<close> in exact arithmetic (a double
  product can differ in its last bit: \<^verbatim>\<open>0.07 * 100\<close> is \<^verbatim>\<open>7.000000000000001\<close>).
\<close>

theorem amount_rendering:
  assumes "\<bar>A\<bar> < 10 ^ 15"
    and "bigNumberNumeric e (JNum (Finite (of_int A))) = Inr (Finite (of_int A))"
    and "pi_amount input = JNum (Finite (of_int A))"
  shows "map request_amount_value (snd (initiatePayment e input)) = [JStr (decimal_of_units A)]
       \<and> (truthy (getCaptureId (pi_data input)) \<and> A \<noteq> 0
            \<and> getCurrencyCode (pi_data input) = JStr c
          \<longrightarrow> map request_amount_value (snd (refundPayment e input))
                = [JStr (decimal_of_units A)])
       \<and> parseFloat (decimal_of_units A) = Finite (of_int A)
       \<and> amount_value_p000 (Finite (of_int A)) = decimal_of_minor A
       \<and> times100 (parseFloat (decimal_of_minor A)) = Finite (of_int A)"
proof -
  have init: "map request_amount_value (snd (initiatePayment e input)) = [JStr (decimal_of_units A)]"
    using assms(2,3)
    by (simp add: initiatePayment_def Let_def toFixed2_units split: sum.splits
          del: toFixed2.simps)
  have refund: "map request_amount_value (snd (refundPayment e input)) = [JStr (decimal_of_units A)]"
    if "truthy (getCaptureId (pi_data input))" "A \<noteq> 0" "getCurrencyCode (pi_data input) = JStr c"
    using assms(2,3) that
    by (simp add: refundPayment_def refundRequest_def currency_toUpperCase_def Let_def
          toFixed2_units split: sum.splits del: toFixed2.simps)
  have old: "amount_value_p000 (Finite (of_int A)) = decimal_of_minor A"
    by (simp add: amount_value_p000_def toFixed2_minor del: toFixed2.simps)
  show ?thesis
    using init refund old parseFloat_units [of A] parseFloat_minor [of A] by blast
qed

theorem amount_rendering_witness:
  "map request_amount_value
     (snd (initiatePayment (example_env (Inr []) (Inr []))
             (example_input (JNum (Finite 350)) (JObj [(''capture_id'', JStr ''CAP-1'')]))))
     = [JStr ''350.00'']
   \<and> map request_amount_value
     (snd (refundPayment (example_env (Inr []) (Inr []))
             (example_input (JNum (Finite 350)) (JObj [(''capture_id'', JStr ''CAP-1'')]))))
     = [JStr ''350.00'']
   \<and> parseFloat ''350.00'' = Finite 350
   \<and> amount_value_p000 (Finite 350) = ''3.50''
   \<and> times100 (parseFloat ''3.50'') = Finite 350"
proof -
  have units: "decimal_of_units 350 = ''350.00''" by code_simp
  have minor: "decimal_of_minor 350 = ''3.50''" by code_simp
  have cap: "truthy (getCaptureId (JObj [(''capture_id'', JStr ''CAP-1'')]))"
    by (simp add: getCaptureId_def)
  have cur: "getCurrencyCode (JObj [(''capture_id'', JStr ''CAP-1'')]) = JStr ''USD''"
    by (simp add: getCurrencyCode_def)
  show ?thesis
    using amount_rendering
      [of 350 "example_env (Inr []) (Inr [])"
          "example_input (JNum (Finite 350)) (JObj [(''capture_id'', JStr ''CAP-1'')])" "''USD''"]
      cap cur
    by (simp add: units minor example_env_def example_input_def plain_numeric_def)
qed

theorem amount_not_divided_counterexample:
  "map request_amount_value
     (snd (initiatePayment (example_env (Inr []) (Inr []))
             (example_input (JNum (Finite 350)) (JObj []))))
     = [JStr ''350.00'']
   \<and> map request_amount_value
     (snd (initiatePayment (example_env (Inr []) (Inr []))
             (example_input (JNum (Finite 350)) (JObj []))))
     \<noteq> [JStr ''3.50'']"
proof -
  have "decimal_of_units 350 = ''350.00''" by code_simp
  then have units: "toFixed2 (Finite 350) = ''350.00''"
    using toFixed2_units [of 350] by (simp del: toFixed2.simps)
  have "map request_amount_value
     (snd (initiatePayment (example_env (Inr []) (Inr []))
             (example_input (JNum (Finite 350)) (JObj []))))
     = [JStr ''350.00'']"
    by (simp add: initiatePayment_def example_env_def example_input_def plain_numeric_def
          Let_def units del: toFixed2.simps)
  then show ?thesis by simp
qed

section \<open>Webhook events\<close>

lemma parseFloat_12_34: "parseFloat ''12.34'' = Finite (1234 / 100)"
  by code_simp

text \<open>
  C2, as the code has it. For every payload whose event type is
  \<^verbatim>\<open>PAYMENT.CAPTURE.COMPLETED\<close> and whose resource carries \<^verbatim>\<open>custom_id\<close> \<^verbatim>\<open>sess_1\<close> and
  amount value \<^verbatim>\<open>12.34\<close>, \<^verbatim>\<open>getWebhookActionAndData\<close> returns action SUCCESSFUL,
  session id \<^verbatim>\<open>sess_1\<close> and the amount as parsed, 12.34, with no conversion to minor
  units; the two earlier revisions multiply by 100 and return 1234. For every payload
  whose event type is none of the five recognised strings, all three revisions return
  NOT_SUPPORTED with amount 0 and the empty session id.
\<close>

theorem webhook_mapping:
  "(opt (JObj payload) ''event_type'' = JStr ''PAYMENT.CAPTURE.COMPLETED''
      \<and> opt (opt (JObj payload) ''resource'') ''custom_id'' = JStr ''sess_1''
      \<and> opt (opt (opt (JObj payload) ''resource'') ''amount'') ''value'' = JStr ''12.34''
    \<longrightarrow> getWebhookActionAndData payload
          = \<lparr>wh_action = SUCCESSFUL, wh_session_id = JStr ''sess_1'',
             wh_amount = Finite (1234 / 100)\<rparr>
        \<and> getWebhookActionAndData_p001 payload
          = \<lparr>wh_action = SUCCESSFUL, wh_session_id = JStr ''sess_1'', wh_amount = Finite 1234\<rparr>
        \<and> getWebhookActionAndData_p000 [(''data'', JObj payload)]
          = Some \<lparr>wh_action = SUCCESSFUL, wh_session_id = JStr ''sess_1'',
                  wh_amount = Finite 1234\<rparr>)
   \<and> (opt (JObj payload) ''event_type''
        \<notin> {JStr ''PAYMENT.CAPTURE.COMPLETED'', JStr ''PAYMENT.CAPTURE.DENIED'',
            JStr ''PAYMENT.CAPTURE.DECLINED'', JStr ''CHECKOUT.ORDER.APPROVED'',
            JStr ''PAYMENT.CAPTURE.REFUNDED''}
    \<longrightarrow> getWebhookActionAndData payload
          = \<lparr>wh_action = NOT_SUPPORTED, wh_session_id = JStr '''', wh_amount = Finite 0\<rparr>
        \<and> getWebhookActionAndData_p001 payload
          = \<lparr>wh_action = NOT_SUPPORTED, wh_session_id = JStr '''', wh_amount = Finite 0\<rparr>
        \<and> getWebhookActionAndData_p000 [(''data'', JObj payload)]
          = Some \<lparr>wh_action = NOT_SUPPORTED, wh_session_id = JStr '''', wh_amount = Finite 0\<rparr>)"
proof -
  have known: "getWebhookActionAndData payload
          = \<lparr>wh_action = SUCCESSFUL, wh_session_id = JStr ''sess_1'',
             wh_amount = Finite (1234 / 100)\<rparr>
        \<and> getWebhookActionAndData_p001 payload
          = \<lparr>wh_action = SUCCESSFUL, wh_session_id = JStr ''sess_1'', wh_amount = Finite 1234\<rparr>
        \<and> getWebhookActionAndData_p000 [(''data'', JObj payload)]
          = Some \<lparr>wh_action = SUCCESSFUL, wh_session_id = JStr ''sess_1'',
                  wh_amount = Finite 1234\<rparr>"
    if "opt (JObj payload) ''event_type'' = JStr ''PAYMENT.CAPTURE.COMPLETED''"
      "opt (opt (JObj payload) ''resource'') ''custom_id'' = JStr ''sess_1''"
      "opt (opt (opt (JObj payload) ''resource'') ''amount'') ''value'' = JStr ''12.34''"
    using that
    by (simp add: getWebhookActionAndData_def getWebhookActionAndData_p001_def
          getWebhookActionAndData_p000_def getAmount_def getAmount_p001_def js_or_def Let_def
          parseFloat_12_34)
  have unknown: "getWebhookActionAndData payload
          = \<lparr>wh_action = NOT_SUPPORTED, wh_session_id = JStr '''', wh_amount = Finite 0\<rparr>
        \<and> getWebhookActionAndData_p001 payload
          = \<lparr>wh_action = NOT_SUPPORTED, wh_session_id = JStr '''', wh_amount = Finite 0\<rparr>
        \<and> getWebhookActionAndData_p000 [(''data'', JObj payload)]
          = Some \<lparr>wh_action = NOT_SUPPORTED, wh_session_id = JStr '''', wh_amount = Finite 0\<rparr>"
    if "opt (JObj payload) ''event_type''
        \<notin> {JStr ''PAYMENT.CAPTURE.COMPLETED'', JStr ''PAYMENT.CAPTURE.DENIED'',
            JStr ''PAYMENT.CAPTURE.DECLINED'', JStr ''CHECKOUT.ORDER.APPROVED'',
            JStr ''PAYMENT.CAPTURE.REFUNDED''}"
    using that
    by (simp add: getWebhookActionAndData_def getWebhookActionAndData_p001_def
          getWebhookActionAndData_p000_def Let_def)
  show ?thesis using known unknown by blast
qed

theorem webhook_mapping_witness:
  "getWebhookActionAndData
     [(''event_type'', JStr ''PAYMENT.CAPTURE.COMPLETED''),
      (''resource'', JObj [(''custom_id'', JStr ''sess_1''),
                           (''amount'', JObj [(''value'', JStr ''12.34'')])])]
     = \<lparr>wh_action = SUCCESSFUL, wh_session_id = JStr ''sess_1'', wh_amount = Finite (1234 / 100)\<rparr>
   \<and> getWebhookActionAndData_p001
     [(''event_type'', JStr ''PAYMENT.CAPTURE.COMPLETED''),
      (''resource'', JObj [(''custom_id'', JStr ''sess_1''),
                           (''amount'', JObj [(''value'', JStr ''12.34'')])])]
     = \<lparr>wh_action = SUCCESSFUL, wh_session_id = JStr ''sess_1'', wh_amount = Finite 1234\<rparr>
   \<and> getWebhookActionAndData
     [(''event_type'', JStr ''BILLING.SUBSCRIPTION.CREATED''), (''resource'', JObj [])]
     = \<lparr>wh_action = NOT_SUPPORTED, wh_session_id = JStr '''', wh_amount = Finite 0\<rparr>"
  using
    webhook_mapping
      [of "[(''event_type'', JStr ''PAYMENT.CAPTURE.COMPLETED''),
            (''resource'', JObj [(''custom_id'', JStr ''sess_1''),
                                 (''amount'', JObj [(''value'', JStr ''12.34'')])])]"]
    webhook_mapping
      [of "[(''event_type'', JStr ''BILLING.SUBSCRIPTION.CREATED''), (''resource'', JObj [])]"]
  by simp

theorem webhook_amount_counterexample:
  "wh_amount
     (getWebhookActionAndData
        [(''event_type'', JStr ''PAYMENT.CAPTURE.COMPLETED''),
         (''resource'', JObj [(''custom_id'', JStr ''sess_1''),
                              (''amount'', JObj [(''value'', JStr ''12.34'')])])])
     = Finite (1234 / 100)
   \<and> wh_amount
     (getWebhookActionAndData
        [(''event_type'', JStr ''PAYMENT.CAPTURE.COMPLETED''),
         (''resource'', JObj [(''custom_id'', JStr ''sess_1''),
                              (''amount'', JObj [(''value'', JStr ''12.34'')])])])
     \<noteq> Finite 1234"
  by (simp add: getWebhookActionAndData_def getAmount_def js_or_def Let_def parseFloat_12_34)

section \<open>Capture-id extraction\<close>

lemma captureId_p000_order:
  "captureId_p000 d = first_present [walk d flat_path, walk d snake_path] (walk d fallback_path)"
  by (simp add: captureId_p000_def Let_def flat_path_def snake_path_def fallback_path_def)

text \<open>
  C3, as the code has it, revision by revision. A candidate counts as present when it
  is truthy in the JavaScript sense (not undefined, null, false, 0, NaN or the empty
  string), which is the test \<^verbatim>\<open>if (x) return x\<close> applies.

  \<^verbatim>\<open>getCaptureId\<close> of \<^verbatim>\<open>service.ts\<close> (the same helper is in part_001) returns the flat
  \<^verbatim>\<open>capture_id\<close> field when it is present; otherwise the camelCase path
  \<^verbatim>\<open>purchaseUnits[0].payments.captures[0].id\<close> when present; otherwise the snake_case
  path \<^verbatim>\<open>purchase_units[0].payments.captures[0].id\<close> when present; otherwise whatever
  the fallback path \<^verbatim>\<open>payments.captures[0].id\<close> holds.

  The inline lookup in \<^verbatim>\<open>refundPayment\<close> of the first revision (part_000, lines
  245-247) has no camelCase step: flat field, then snake_case path, then fallback path.

  In particular, for an object without a flat identifier whose camelCase and snake_case
  capture arrays are both populated, \<^verbatim>\<open>getCaptureId\<close> returns the camelCase identifier
  and the lookup of part_000 returns the snake_case one.
\<close>

theorem getCaptureId_precedence:
  "getCaptureId r =
     first_present [walk r flat_path, walk r camel_path, walk r snake_path] (walk r fallback_path)
   \<and> captureId_p000 r =
     first_present [walk r flat_path, walk r snake_path] (walk r fallback_path)
   \<and> (\<not> truthy (walk r flat_path) \<and> truthy (walk r camel_path) \<and> truthy (walk r snake_path)
        \<longrightarrow> getCaptureId r = walk r camel_path \<and> captureId_p000 r = walk r snake_path)"
proof -
  have current: "getCaptureId r =
     first_present [walk r flat_path, walk r camel_path, walk r snake_path] (walk r fallback_path)"
    by (simp add: getCaptureId_def Let_def flat_path_def camel_path_def snake_path_def
          fallback_path_def)
  have first: "captureId_p000 r =
     first_present [walk r flat_path, walk r snake_path] (walk r fallback_path)"
    by (rule captureId_p000_order)
  show ?thesis
    by (simp add: current first)
qed

theorem getCaptureId_precedence_witness:
  "\<not> truthy (walk (JObj [(''purchaseUnits'', JArr [capture_unit (JStr ''CAP-CAMEL'')]),
                           (''purchase_units'', JArr [capture_unit (JStr ''CAP-SNAKE'')])]) flat_path)
   \<and> truthy (walk (JObj [(''purchaseUnits'', JArr [capture_unit (JStr ''CAP-CAMEL'')]),
                          (''purchase_units'', JArr [capture_unit (JStr ''CAP-SNAKE'')])]) camel_path)
   \<and> truthy (walk (JObj [(''purchaseUnits'', JArr [capture_unit (JStr ''CAP-CAMEL'')]),
                          (''purchase_units'', JArr [capture_unit (JStr ''CAP-SNAKE'')])]) snake_path)
   \<and> getCaptureId (JObj [(''purchaseUnits'', JArr [capture_unit (JStr ''CAP-CAMEL'')]),
                          (''purchase_units'', JArr [capture_unit (JStr ''CAP-SNAKE'')])])
       = JStr ''CAP-CAMEL''
   \<and> captureId_p000 (JObj [(''purchaseUnits'', JArr [capture_unit (JStr ''CAP-CAMEL'')]),
                            (''purchase_units'', JArr [capture_unit (JStr ''CAP-SNAKE'')])])
       = JStr ''CAP-SNAKE''"
  using getCaptureId_precedence
    [of "JObj [(''purchaseUnits'', JArr [capture_unit (JStr ''CAP-CAMEL'')]),
               (''purchase_units'', JArr [capture_unit (JStr ''CAP-SNAKE'')])]"]
  by (simp add: capture_unit_def flat_path_def camel_path_def snake_path_def)

theorem captureId_p000_camel_counterexample:
  "captureId_p000 (JObj [(''purchaseUnits'', JArr [capture_unit (JStr ''CAP-CAMEL'')]),
                         (''purchase_units'', JArr [capture_unit (JStr ''CAP-SNAKE'')])])
     = JStr ''CAP-SNAKE''
   \<and> captureId_p000 (JObj [(''purchaseUnits'', JArr [capture_unit (JStr ''CAP-CAMEL'')]),
                            (''purchase_units'', JArr [capture_unit (JStr ''CAP-SNAKE'')])])
     \<noteq> JStr ''CAP-CAMEL''"
  by (simp add: captureId_p000_def capture_unit_def Let_def)

section \<open>Status mapping\<close>

text \<open>
  C4. \<^verbatim>\<open>getStatus\<close> is a total function of the order's status value: CREATED, SAVED and
  APPROVED give pending, PAYER_ACTION_REQUIRED gives requires-more, COMPLETED gives
  captured, VOIDED gives canceled, and every other value of the status field gives
  pending. The order is handed back as the data, and no branch raises: the result is
  always a status record.
\<close>

theorem getStatus_total:
  "getStatus order = \<lparr>sr_status = host_status (opt (JObj order) ''status''), sr_data = order\<rparr>"
proof (cases "opt (JObj order) ''status''")
  case (JStr s)
  then show ?thesis
    by (simp add: getStatus_def Let_def status_table_def)
qed (simp_all add: getStatus_def Let_def)


section \<open>Facts about optional chaining\<close>

lemma js_or_present: "truthy (opt d k) \<Longrightarrow> js_or d x = d"
  by (cases d) (simp_all add: js_or_def)

section \<open>Order status retrieval\<close>

text \<open>
  C7. When the input data carries no order id, \<^verbatim>\<open>getPaymentStatus\<close> returns status
  pending and sends no request to the processor. The data it returns is
  \<^verbatim>\<open>data || {}\<close>: the input data itself, unchanged, whenever the input has data, and
  an empty object when the input has none.
\<close>

theorem getPaymentStatus_no_order_id:
  assumes "\<not> truthy (opt (pi_data input) ''id'')"
  shows "getPaymentStatus e input
           = (\<lparr>po_status = PENDING, po_data = js_or (pi_data input) (JObj [])\<rparr>, [])
         \<and> (truthy (pi_data input) \<longrightarrow> po_data (fst (getPaymentStatus e input)) = pi_data input)"
  using assms by (simp add: getPaymentStatus_def Let_def js_or_def)

theorem getPaymentStatus_no_order_id_witness:
  "\<not> truthy (opt (JObj [(''session_id'', JStr ''sess_1'')]) ''id'')
   \<and> truthy (JObj [(''session_id'', JStr ''sess_1'')])
   \<and> getPaymentStatus (example_env (Inr []) (Inr []))
        (example_input JUndefined (JObj [(''session_id'', JStr ''sess_1'')]))
       = (\<lparr>po_status = PENDING, po_data = JObj [(''session_id'', JStr ''sess_1'')]\<rparr>, [])"
  using getPaymentStatus_no_order_id
    [of "example_input JUndefined (JObj [(''session_id'', JStr ''sess_1'')])"
        "example_env (Inr []) (Inr [])"]
  by (simp add: example_input_def js_or_def)

lemma getPaymentStatus_without_data:
  "getPaymentStatus e (example_input amount JUndefined)
     = (\<lparr>po_status = PENDING, po_data = JObj []\<rparr>, [])"
  by (simp add: getPaymentStatus_def example_input_def js_or_def)

text \<open>
  C8. When the order id is present and the processor's order fetch fails,
  \<^verbatim>\<open>getPaymentStatus\<close> does not throw: it returns a result with status error and the
  input data echoed, after the single fetch request.
\<close>

theorem getPaymentStatus_fetch_failure:
  assumes "truthy (opt (pi_data input) ''id'')"
    and "getOrder e (opt (pi_data input) ''id'') = Inl error"
  shows "getPaymentStatus e input
           = (\<lparr>po_status = ERROR, po_data = pi_data input\<rparr>, [GetOrder (opt (pi_data input) ''id'')])"
  using assms by (simp add: getPaymentStatus_def Let_def js_or_present)

theorem getPaymentStatus_fetch_failure_witness:
  "truthy (opt (JObj [(''id'', JStr ''ORDER-1'')]) ''id'')
   \<and> getOrder (example_env (Inr []) (Inl (JsError (JNum (Finite 500)) ''ApiError'' ''Internal error'')))
        (opt (JObj [(''id'', JStr ''ORDER-1'')]) ''id'')
       = Inl (JsError (JNum (Finite 500)) ''ApiError'' ''Internal error'')
   \<and> getPaymentStatus
        (example_env (Inr []) (Inl (JsError (JNum (Finite 500)) ''ApiError'' ''Internal error'')))
        (example_input JUndefined (JObj [(''id'', JStr ''ORDER-1'')]))
       = (\<lparr>po_status = ERROR, po_data = JObj [(''id'', JStr ''ORDER-1'')]\<rparr>,
          [GetOrder (JStr ''ORDER-1'')])"
  using getPaymentStatus_fetch_failure
    [of "example_input JUndefined (JObj [(''id'', JStr ''ORDER-1'')])"
        "example_env (Inr []) (Inl (JsError (JNum (Finite 500)) ''ApiError'' ''Internal error''))"
        "JsError (JNum (Finite 500)) ''ApiError'' ''Internal error''"]
  by (simp add: example_input_def example_env_def)

section \<open>Authorization\<close>

text \<open>
  C5, as the code has it. When the capture-order call of \<^verbatim>\<open>authorizePayment\<close> fails
  with status code exactly 422, the operation returns the result of
  \<^verbatim>\<open>getPaymentStatus\<close> on the same input (its requests following the capture request);
  a failure with any other status code, 409 included, is thrown as an authorization
  error whose message wraps the upstream text.
\<close>

theorem authorizePayment_capture_failure:
  assumes "truthy (opt (pi_data input) ''id'')"
    and "captureOrder e (opt (pi_data input) ''id'') = Inl error"
  shows "(err_statusCode error = JNum (Finite 422) \<longrightarrow>
            authorizePayment e input
              = (Inr (fst (getPaymentStatus e input)),
                 CaptureOrder (opt (pi_data input) ''id'') # snd (getPaymentStatus e input)))
       \<and> (err_statusCode error \<noteq> JNum (Finite 422) \<longrightarrow>
            authorizePayment e input
              = (Inl (MedusaError PAYMENT_AUTHORIZATION_ERROR
                        (''PayPal authorizePayment failed: '' @ error_text error)),
                 [CaptureOrder (opt (pi_data input) ''id'')]))"
  using assms by (simp add: authorizePayment_def Let_def)

theorem authorizePayment_capture_failure_witness:
  "authorizePayment
     (example_env (Inl (JsError (JNum (Finite 422)) ''ApiError'' ''ORDER_ALREADY_CAPTURED''))
                  (Inr [(''id'', JStr ''ORDER-1''), (''status'', JStr ''COMPLETED'')]))
     (example_input JUndefined (JObj [(''id'', JStr ''ORDER-1'')]))
   = (Inr \<lparr>po_status = CAPTURED,
           po_data = JObj [(''id'', JStr ''ORDER-1''), (''status'', JStr ''COMPLETED''),
                           (''capture_id'', JUndefined), (''currency_code'', JStr ''USD'')]\<rparr>,
      [CaptureOrder (JStr ''ORDER-1''), GetOrder (JStr ''ORDER-1'')])"
  using authorizePayment_capture_failure
    [of "example_input JUndefined (JObj [(''id'', JStr ''ORDER-1'')])"
        "example_env (Inl (JsError (JNum (Finite 422)) ''ApiError'' ''ORDER_ALREADY_CAPTURED''))
                     (Inr [(''id'', JStr ''ORDER-1''), (''status'', JStr ''COMPLETED'')])"
        "JsError (JNum (Finite 422)) ''ApiError'' ''ORDER_ALREADY_CAPTURED''"]
  by (simp add: example_input_def example_env_def getPaymentStatus_def Let_def getStatus_def
        getCaptureId_def getCurrencyCode_def)

theorem authorizePayment_conflict_409_counterexample:
  "authorizePayment
     (example_env (Inl (JsError (JNum (Finite 409)) ''ApiError'' ''Conflict''))
                  (Inr [(''id'', JStr ''ORDER-1''), (''status'', JStr ''COMPLETED'')]))
     (example_input JUndefined (JObj [(''id'', JStr ''ORDER-1'')]))
   = (Inl (MedusaError PAYMENT_AUTHORIZATION_ERROR ''PayPal authorizePayment failed: Conflict''),
      [CaptureOrder (JStr ''ORDER-1'')])"
  by (simp add: authorizePayment_def example_input_def example_env_def Let_def error_text_def)

section \<open>Refunds\<close>

text \<open>
  C6. When the multi-path lookup finds no capture id in the input data,
  \<^verbatim>\<open>refundPayment\<close> fails with an invalid-data error, whatever the amount (given or
  not) and whatever the processor would answer, and it sends no request.
\<close>

theorem refundPayment_without_capture_id:
  assumes "\<not> truthy (getCaptureId (pi_data input))"
  shows "refundPayment e input
           = (Inl (MedusaError INVALID_DATA ''No capture ID found for refund''), [])"
  using assms by (simp add: refundPayment_def Let_def)

theorem refundPayment_without_capture_id_witness:
  "\<not> truthy (getCaptureId (JObj [(''id'', JStr ''ORDER-1''), (''status'', JStr ''COMPLETED'')]))
   \<and> refundPayment (example_env (Inr []) (Inr []))
        (example_input (JNum (Finite 500))
           (JObj [(''id'', JStr ''ORDER-1''), (''status'', JStr ''COMPLETED'')]))
       = (Inl (MedusaError INVALID_DATA ''No capture ID found for refund''), [])"
  using refundPayment_without_capture_id
    [of "example_input (JNum (Finite 500))
           (JObj [(''id'', JStr ''ORDER-1''), (''status'', JStr ''COMPLETED'')])"
        "example_env (Inr []) (Inr [])"]
  by (simp add: example_input_def getCaptureId_def)

section \<open>Saved payment methods\<close>

text \<open>
  C9. When the account holder id is present and the processor's token listing fails
  with status code 404, \<^verbatim>\<open>listPaymentMethods\<close> returns the empty list; a failure with
  any other status code is thrown as an invalid-data error whose message wraps the
  upstream text. Either way the listing request (page size 100) is the only request.
\<close>

theorem listPaymentMethods_failure:
  assumes "truthy (opt (opt (opt (mi_context input) ''account_holder'') ''data'') ''id'')"
    and "listCustomerPaymentTokens e
           (opt (opt (opt (mi_context input) ''account_holder'') ''data'') ''id'') 100 = Inl error"
  shows "(err_statusCode error = JNum (Finite 404) \<longrightarrow>
            listPaymentMethods e input
              = (Inr [],
                 [ListCustomerPaymentTokens
                    (opt (opt (opt (mi_context input) ''account_holder'') ''data'') ''id'') 100]))
       \<and> (err_statusCode error \<noteq> JNum (Finite 404) \<longrightarrow>
            listPaymentMethods e input
              = (Inl (MedusaError INVALID_DATA
                        (''PayPal listPaymentMethods failed: '' @ error_text error)),
                 [ListCustomerPaymentTokens
                    (opt (opt (opt (mi_context input) ''account_holder'') ''data'') ''id'') 100]))"
  using assms by (simp add: listPaymentMethods_def Let_def)

theorem listPaymentMethods_failure_witness:
  "listPaymentMethods
     (example_env (Inl (JsError (JNum (Finite 404)) ''ApiError'' ''Not Found'')) (Inr []))
     \<lparr>mi_context = JObj [(''account_holder'', JObj [(''data'', JObj [(''id'', JStr ''paypal_cus_1'')])])],
      mi_data = JUndefined\<rparr>
     = (Inr [], [ListCustomerPaymentTokens (JStr ''paypal_cus_1'') 100])
   \<and> listPaymentMethods
     (example_env (Inl (JsError (JNum (Finite 500)) ''ApiError'' ''Internal error'')) (Inr []))
     \<lparr>mi_context = JObj [(''account_holder'', JObj [(''data'', JObj [(''id'', JStr ''paypal_cus_1'')])])],
      mi_data = JUndefined\<rparr>
     = (Inl (MedusaError INVALID_DATA ''PayPal listPaymentMethods failed: Internal error''),
        [ListCustomerPaymentTokens (JStr ''paypal_cus_1'') 100])"
  using
    listPaymentMethods_failure
      [of "\<lparr>mi_context = JObj [(''account_holder'', JObj [(''data'', JObj [(''id'', JStr ''paypal_cus_1'')])])],
            mi_data = JUndefined\<rparr>"
          "example_env (Inl (JsError (JNum (Finite 404)) ''ApiError'' ''Not Found'')) (Inr [])"
          "JsError (JNum (Finite 404)) ''ApiError'' ''Not Found''"]
    listPaymentMethods_failure
      [of "\<lparr>mi_context = JObj [(''account_holder'', JObj [(''data'', JObj [(''id'', JStr ''paypal_cus_1'')])])],
            mi_data = JUndefined\<rparr>"
          "example_env (Inl (JsError (JNum (Finite 500)) ''ApiError'' ''Internal error'')) (Inr [])"
          "JsError (JNum (Finite 500)) ''ApiError'' ''Internal error''"]
  by (simp add: example_env_def error_text_def)

text \<open>
  C10. When the context carries no account holder id, \<^verbatim>\<open>listPaymentMethods\<close> returns
  the empty list without throwing and without any request to the processor, whereas
  \<^verbatim>\<open>savePaymentMethod\<close> on the same context throws an invalid-data error (also without
  any request).
\<close>

theorem payment_methods_without_account_holder:
  assumes "\<not> truthy (opt (opt (opt (mi_context input) ''account_holder'') ''data'') ''id'')"
  shows "listPaymentMethods e input = (Inr [], [])
       \<and> savePaymentMethod e input
           = (Inl (MedusaError INVALID_DATA
                     ''Missing account holder ID for saving payment method''), [])"
  using assms by (simp add: listPaymentMethods_def savePaymentMethod_def Let_def)

theorem payment_methods_without_account_holder_witness:
  "\<not> truthy (opt (opt (opt (JObj [(''customer'', JObj [(''id'', JStr ''cus_1'')])])
                         ''account_holder'') ''data'') ''id'')
   \<and> listPaymentMethods (example_env (Inr []) (Inr []))
        \<lparr>mi_context = JObj [(''customer'', JObj [(''id'', JStr ''cus_1'')])],
         mi_data = JObj [(''card'', JObj [])]\<rparr>
       = (Inr [], [])
   \<and> savePaymentMethod (example_env (Inr []) (Inr []))
        \<lparr>mi_context = JObj [(''customer'', JObj [(''id'', JStr ''cus_1'')])],
         mi_data = JObj [(''card'', JObj [])]\<rparr>
       = (Inl (MedusaError INVALID_DATA
                 ''Missing account holder ID for saving payment method''), [])"
  using payment_methods_without_account_holder
    [of "\<lparr>mi_context = JObj [(''customer'', JObj [(''id'', JStr ''cus_1'')])],
          mi_data = JObj [(''card'', JObj [])]\<rparr>"
        "example_env (Inr []) (Inr [])"]
  by simp

end
